theory Spec2Isabelle
  imports Complex_Main "HOL-Library.AList"
begin

section \<open>VetCare license server: data model\<close>

text \<open>
  A shallow embedding of \<^verbatim>\<open>server.js\<close>. Every route handler is a function
  from the server state and the request's inputs to a response and the new state.

  \<^item> Instants are milliseconds since the epoch (\<open>Date.getTime()\<close>), an \<open>int\<close>.
    The stored ISO strings are read back by \<open>new Date(...)\<close> to the same instant, so a
    stored date is its instant. \<open>toISOString()\<close> raises \<open>RangeError\<close> on an instant
    outside the range of \<open>Date\<close>; that raise is a branch of the handlers that
    compute a date.
  \<^item> The clock (\<open>new Date()\<close>), the random key suffix and the SHA-256 digest are
    inputs of the handlers (\<open>now\<close>, \<open>stamp\<close>, \<open>randomSuffix\<close>, \<open>H\<close>).
  \<^item> A request field is \<open>None\<close> when the body does not have it (\<open>undefined\<close>) and
    \<open>Some\<close> of a string or an integer otherwise. The field \<open>daysToAdd\<close>, which the
    handler uses in arithmetic without testing its type, is any JSON value (\<open>jsval\<close>).
  \<^item> The object \<open>licenses\<close> is the list of its own entries in insertion order;
    \<open>licenses[hash] = v\<close> replaces an entry in place or appends one. It is a plain
    object, so reading \<open>licenses[hash]\<close> also finds the members it inherits from
    \<open>Object.prototype\<close> (\<open>obj_at\<close>). The digest of a key is 64 hexadecimal digits
    and never such a name, so the handlers that look a license up by the digest of a
    key find own entries only (\<open>obj_get\<close>); the handlers that take the hash from the
    URL use \<open>obj_at\<close>. The keys of the registry are such digests.
  \<^item> The state is the registry and its file. The built-in objects are as the runtime
    made them in every state; a handler that assigns to a property of one ends the
    run with the outcome \<open>BuiltinModified\<close>, and what the server does after that is
    not described here.
  \<^item> An optional field of a stored object (\<open>users\<close>, \<open>boundDeviceId\<close>,
    \<open>loginHistory\<close>, \<open>name\<close>) is \<open>None\<close> while the object does not have it.
  \<^item> Fields keep their names, except \<open>type\<close> and \<open>name\<close> of a license
    (\<open>licenseType\<close>, \<open>licenseName\<close>), \<open>isActive\<close> of a user (\<open>userIsActive\<close>),
    \<open>username\<close> of a login record (\<open>loginUsername\<close>) and \<open>total\<close> of the
    statistics (\<open>totalLicenses\<close>). Of a response the status and the data are kept, the
    constant \<open>success\<close> and \<open>message\<close> fields are not.
\<close>

type_synonym instant = int

text \<open>
  A number is a real or one of the three special values; the rounding of doubles and
  their overflow to infinity are not modelled. A JSON value is \<open>undefined\<close> (field
  absent), \<open>null\<close>, a boolean, a number, a string, or an array or object, which is
  kept as the string that \<open>ToPrimitive\<close> gives for it (the elements joined by commas,
  or \<open>[object Object]\<close>). The result of \<open>a += b\<close> is a JSON value or, when either
  side is a string, the text of \<open>a\<close> followed by the text of \<open>b\<close> (\<open>Cat\<close>).
\<close>

datatype jsnum = Fin real | PosInf | NegInf | NaN

datatype jsval = Undefined | Null | Bool bool | Number jsnum | Str string | Obj string

datatype jssum = Val jsval | Cat jssum jsval

record user_assignment =
  username :: "string option"
  role :: string
  addedAt :: instant
  userIsActive :: bool

record login_attempt =
  loginUsername :: string
  timestamp :: instant
  success :: bool

record license =
  key :: string
  customerId :: string
  licenseType :: string
  created :: instant
  expirationDate :: instant
  validityDays :: jssum
  deviceFingerprint :: "string option"
  usageCount :: int
  isActive :: bool
  users :: "user_assignment list option"
  boundDeviceId :: "string option"
  loginHistory :: "login_attempt list option"
  licenseName :: "string option"

record server =
  licenses :: "(string \<times> license) list"
  licensesFile :: "(string \<times> license) list"

record stats =
  totalLicenses :: int
  active :: int
  inactive :: int
  expired :: int
  expiringIn30Days :: int
  timeToResolve :: string
  available :: int

datatype body =
    Invalid string
  | Failure string
  | ValidLicense string instant string
  | ValidDevice string instant "string option" int
  | ValidUser string instant string "string option" string
  | LicenseBody string license
  | LicenseList "(string \<times> license) list"
  | UserBody user_assignment
  | BuiltinBody string "bool option"
  | UsersBody "string option" "string option" "user_assignment list"
  | StatsBody stats
  | Done

type_synonym response = "nat \<times> body"

datatype 'v property = Own 'v | Inherited | Absent

datatype outcome = Continue server | BuiltinModified server

subsection \<open>JavaScript primitives used by the handlers\<close>

definition falsy :: "string option \<Rightarrow> bool" where
  "falsy v = (case v of None \<Rightarrow> True | Some s \<Rightarrow> s = [])"

definition maxInstant :: int where
  "maxInstant = 8640000000000000"

definition validDate :: "instant \<Rightarrow> bool" where
  "validDate t = (- maxInstant \<le> t \<and> t \<le> maxInstant)"

definition msPerDay :: int where
  "msPerDay = 1000 * 60 * 60 * 24"

definition obj_get :: "(string \<times> 'v) list \<Rightarrow> string \<Rightarrow> 'v option" where
  "obj_get obj k = map_of obj k"

text \<open>
  The own property names of \<open>Object.prototype\<close>. Eleven are functions and
  \<open>__proto__\<close> reads as \<open>Object.prototype\<close> itself; all are truthy objects that have
  none of the fields of a license.
\<close>

definition objectPrototypeNames :: "string list" where
  "objectPrototypeNames =
     [''constructor'', ''__defineGetter__'', ''__defineSetter__'', ''hasOwnProperty'',
      ''__lookupGetter__'', ''__lookupSetter__'', ''isPrototypeOf'', ''propertyIsEnumerable'',
      ''toString'', ''valueOf'', ''__proto__'', ''toLocaleString'']"

definition obj_at :: "(string \<times> 'v) list \<Rightarrow> string \<Rightarrow> 'v property" where
  "obj_at obj k =
     (case obj_get obj k of
        Some v \<Rightarrow> Own v
      | None \<Rightarrow> if k \<in> set objectPrototypeNames then Inherited else Absent)"



definition truthy :: "jsval \<Rightarrow> bool" where
  "truthy v =
     (case v of
        Undefined \<Rightarrow> False
      | Null \<Rightarrow> False
      | Bool b \<Rightarrow> b
      | Number n \<Rightarrow> (case n of Fin x \<Rightarrow> x \<noteq> 0 | PosInf \<Rightarrow> True | NegInf \<Rightarrow> True | NaN \<Rightarrow> False)
      | Str t \<Rightarrow> t \<noteq> []
      | Obj t \<Rightarrow> True)"

text \<open>\<open>ToNumber\<close>; its reading of a string is the parameter \<open>N\<close>.\<close>

definition toNumber :: "(string \<Rightarrow> jsnum) \<Rightarrow> jsval \<Rightarrow> jsnum" where
  "toNumber N v =
     (case v of
        Undefined \<Rightarrow> NaN
      | Null \<Rightarrow> Fin 0
      | Bool b \<Rightarrow> (if b then Fin 1 else Fin 0)
      | Number n \<Rightarrow> n
      | Str t \<Rightarrow> N t
      | Obj t \<Rightarrow> N t)"

definition isText :: "jsval \<Rightarrow> bool" where
  "isText v = (case v of Str t \<Rightarrow> True | Obj t \<Rightarrow> True | _ \<Rightarrow> False)"

fun num_add :: "jsnum \<Rightarrow> jsnum \<Rightarrow> jsnum" where
  "num_add (Fin a) (Fin b) = Fin (a + b)"
| "num_add NaN y = NaN"
| "num_add x NaN = NaN"
| "num_add PosInf NegInf = NaN"
| "num_add NegInf PosInf = NaN"
| "num_add PosInf y = PosInf"
| "num_add x PosInf = PosInf"
| "num_add NegInf y = NegInf"
| "num_add x NegInf = NegInf"

fun num_mul :: "jsnum \<Rightarrow> jsnum \<Rightarrow> jsnum" where
  "num_mul (Fin a) (Fin b) = Fin (a * b)"
| "num_mul NaN y = NaN"
| "num_mul x NaN = NaN"
| "num_mul PosInf (Fin b) = (if b = 0 then NaN else if 0 < b then PosInf else NegInf)"
| "num_mul NegInf (Fin b) = (if b = 0 then NaN else if 0 < b then NegInf else PosInf)"
| "num_mul (Fin a) PosInf = (if a = 0 then NaN else if 0 < a then PosInf else NegInf)"
| "num_mul (Fin a) NegInf = (if a = 0 then NaN else if 0 < a then NegInf else PosInf)"
| "num_mul PosInf PosInf = PosInf"
| "num_mul NegInf NegInf = PosInf"
| "num_mul PosInf NegInf = NegInf"
| "num_mul NegInf PosInf = NegInf"

definition le_zero :: "jsnum \<Rightarrow> bool" where
  "le_zero n = (case n of Fin x \<Rightarrow> x \<le> 0 | PosInf \<Rightarrow> False | NegInf \<Rightarrow> True | NaN \<Rightarrow> False)"

text \<open>
  \<open>a + b\<close> with \<open>a\<close> the stored value: string concatenation when either side is a
  string (or an array or object), addition of the two numbers otherwise.
\<close>

definition jsPlus :: "(string \<Rightarrow> jsnum) \<Rightarrow> jssum \<Rightarrow> jsval \<Rightarrow> jssum" where
  "jsPlus N a b =
     (case a of
        Cat x y \<Rightarrow> Cat a b
      | Val v \<Rightarrow> if isText v \<or> isText b then Cat a b
                 else Val (Number (num_add (toNumber N v) (toNumber N b))))"

text \<open>
  \<open>new Date(t)\<close> for a number \<open>t\<close>: no date (\<open>None\<close>, on which \<open>toISOString()\<close>
  raises) when \<open>t\<close> is not finite or beyond the range, else \<open>t\<close> cut to whole
  milliseconds towards zero.
\<close>

definition newDate :: "jsnum \<Rightarrow> instant option" where
  "newDate t =
     (case t of
        Fin x \<Rightarrow> if \<bar>x\<bar> \<le> real_of_int maxInstant
                 then Some (if 0 \<le> x then \<lfloor>x\<rfloor> else \<lceil>x\<rceil>) else None
      | _ \<Rightarrow> None)"

definition obj_set :: "(string \<times> 'v) list \<Rightarrow> string \<Rightarrow> 'v \<Rightarrow> (string \<times> 'v) list" where
  "obj_set obj k v = AList.update k v obj"



fun findUser :: "string option \<Rightarrow> user_assignment list \<Rightarrow> user_assignment option" where
  "findUser n [] = None"
| "findUser n (u # us) = (if username u = n then Some u else findUser n us)"




subsection \<open>Helper functions of the server\<close>

definition generateLicenseKey :: "string \<Rightarrow> string \<Rightarrow> string" where
  "generateLicenseKey cid randomSuffix = ''VET-'' @ cid @ ''-'' @ randomSuffix"

definition saveLicenses :: "(string \<times> license) list \<Rightarrow> server" where
  "saveLicenses ls = \<lparr>licenses = ls, licensesFile = ls\<rparr>"

definition loadLicenses :: "(string \<times> license) list \<Rightarrow> (string \<times> license) list" where
  "loadLicenses entries = fold (\<lambda>(h, l) obj. obj_set obj h l) entries []"

definition inMemory :: "server \<Rightarrow> (string \<times> license) list \<Rightarrow> server" where
  "inMemory s ls = s\<lparr>licenses := ls\<rparr>"

section \<open>Route handlers\<close>

subsection \<open>GET /api/licenses, GET /api/licenses/:hash\<close>



subsection \<open>GET /api/stats\<close>

text \<open>
  The counters are updated license by license, as in the \<open>forEach\<close> loop;
  \<open>available\<close> is assigned after the loop.
\<close>

definition daysUntilExpiry :: "instant \<Rightarrow> license \<Rightarrow> real" where
  "daysUntilExpiry now license = real_of_int (expirationDate license - now) / real_of_int msPerDay"

definition countLicense :: "instant \<Rightarrow> license \<Rightarrow> stats \<Rightarrow> stats" where
  "countLicense now license st =
     (let st1 = (if daysUntilExpiry now license < 0 then st\<lparr>expired := expired st + 1\<rparr>
                 else if daysUntilExpiry now license \<le> 30
                 then st\<lparr>expiringIn30Days := expiringIn30Days st + 1\<rparr>
                 else st)
      in if isActive license then st1\<lparr>active := active st1 + 1\<rparr>
         else st1\<lparr>inactive := inactive st1 + 1\<rparr>)"

definition computeStats :: "(string \<times> license) list \<Rightarrow> instant \<Rightarrow> stats" where
  "computeStats ls now =
     (let st0 = \<lparr>totalLicenses = int (length ls), active = 0, inactive = 0, expired = 0,
                 expiringIn30Days = 0, timeToResolve = ''0h'', available = 0\<rparr>;
          st1 = fold (countLicense now) (map snd ls) st0
      in st1\<lparr>available := totalLicenses st1 - active st1\<rparr>)"

definition getStats :: "server \<Rightarrow> instant \<Rightarrow> response \<times> server" where
  "getStats s now = ((200, StatsBody (computeStats (licenses s) now)), s)"

subsection \<open>POST /api/licenses\<close>

text \<open>
  \<open>now\<close> is the clock reading \<open>new Date()\<close>, always a date in range, so
  \<open>now.toISOString()\<close> does not raise; \<open>expirationDate.toISOString()\<close> raises when the
  computed instant is out of range, before anything is stored, and the \<open>catch\<close> answers
  500 with the error's message. The body fields \<open>type\<close> and \<open>validityDays\<close> default
  to \<open>'production'\<close> and \<open>365\<close> when absent.
\<close>

definition createLicense ::
  "(string \<Rightarrow> string) \<Rightarrow> server \<Rightarrow> string option \<Rightarrow> string option \<Rightarrow> int option \<Rightarrow>
   string \<Rightarrow> instant \<Rightarrow> response \<times> server" where
  "createLicense H s cidField typeField daysField randomSuffix now =
     (let type = (case typeField of None \<Rightarrow> ''production'' | Some t \<Rightarrow> t);
          days = (case daysField of None \<Rightarrow> 365 | Some d \<Rightarrow> d)
      in case cidField of
           None \<Rightarrow> ((400, Failure ''Customer ID is required''), s)
         | Some cid \<Rightarrow>
             if cid = [] then ((400, Failure ''Customer ID is required''), s)
             else
               let licenseKey = generateLicenseKey cid randomSuffix;
                   hash = H licenseKey;
                   expiration = now + days * 24 * 60 * 60 * 1000
               in if \<not> validDate expiration then ((500, Failure ''Invalid time value''), s)
                  else
                    let license = \<lparr>key = licenseKey, customerId = cid, licenseType = type,
                          created = now, expirationDate = expiration,
                          validityDays = Val (Number (Fin (real_of_int days))),
                          deviceFingerprint = None, usageCount = 0, isActive = True,
                          users = None, boundDeviceId = None, loginHistory = None,
                          licenseName = None\<rparr>
                    in ((201, LicenseBody hash license),
                        saveLicenses (obj_set (licenses s) hash license)))"

subsection \<open>POST /api/licenses/validate\<close>

definition validate ::
  "(string \<Rightarrow> string) \<Rightarrow> server \<Rightarrow> string option \<Rightarrow> instant \<Rightarrow> response \<times> server" where
  "validate H s keyField now =
     (if falsy keyField then ((400, Invalid ''License key not provided''), s)
      else case keyField of
        None \<Rightarrow> ((400, Invalid ''License key not provided''), s)
      | Some licenseKey \<Rightarrow>
         (let hash = H licenseKey in
          case obj_get (licenses s) hash of
            None \<Rightarrow> ((200, Invalid ''License not found''), s)
          | Some license \<Rightarrow>
              if expirationDate license < now then ((200, Invalid ''License expired''), s)
              else if \<not> isActive license then ((200, Invalid ''License is inactive''), s)
              else
                let license' = license\<lparr>usageCount := usageCount license + 1\<rparr>
                in ((200, ValidLicense (customerId license') (expirationDate license')
                            (licenseType license')),
                    saveLicenses (obj_set (licenses s) hash license'))))"

subsection \<open>POST /api/licenses/:hash/users and the other user routes\<close>

text \<open>
  \<open>usersOf\<close> is \<open>license.users || []\<close>. The handler first gives a license without
  \<open>users\<close> the empty array (in memory only) and then looks for the username with
  \<open>===\<close>; \<open>username\<close> is stored as it came, also when it is \<open>undefined\<close>. For a
  hash that names a member of \<open>Object.prototype\<close> the test \<open>!license\<close> does not
  fire: the handler assigns \<open>users = []\<close> to that built-in object, pushes the user,
  saves the registry and answers 201.
\<close>

definition usersOf :: "license \<Rightarrow> user_assignment list" where
  "usersOf license = (case users license of None \<Rightarrow> [] | Some us \<Rightarrow> us)"

definition addUser ::
  "server \<Rightarrow> string \<Rightarrow> string option \<Rightarrow> string option \<Rightarrow> instant \<Rightarrow> response \<times> outcome" where
  "addUser s hash usernameField roleField stamp =
     (let roleV = (case roleField of None \<Rightarrow> ''user'' | Some r \<Rightarrow> r);
          user = \<lparr>username = usernameField, role = roleV, addedAt = stamp,
                   userIsActive = True\<rparr> in
      case obj_at (licenses s) hash of
        Absent \<Rightarrow> ((404, Failure ''License not found''), Continue s)
      | Inherited \<Rightarrow> ((201, UserBody user), BuiltinModified (saveLicenses (licenses s)))
      | Own license \<Rightarrow>
          let us = usersOf license;
              license1 = license\<lparr>users := Some us\<rparr>
          in if findUser usernameField us \<noteq> None
             then ((400, Failure ''User already exists in this license''),
                   Continue (inMemory s (obj_set (licenses s) hash license1)))
             else
               let license2 = license1\<lparr>users := Some (us @ [user])\<rparr>
               in ((201, UserBody user),
                   Continue (saveLicenses (obj_set (licenses s) hash license2))))"




subsection \<open>POST /api/verify-license\<close>

definition remainingDays :: "instant \<Rightarrow> instant \<Rightarrow> int" where
  "remainingDays expiration now = \<lceil>real_of_int (expiration - now) / real_of_int msPerDay\<rceil>"

definition displayName :: "license \<Rightarrow> string" where
  "displayName license =
     (case licenseName license of None \<Rightarrow> ''VetCare License''
      | Some n \<Rightarrow> if n = [] then ''VetCare License'' else n)"

definition verified :: "server \<Rightarrow> string \<Rightarrow> license \<Rightarrow> instant \<Rightarrow> response \<times> server" where
  "verified s hash license now =
     ((200, ValidDevice (displayName license) (expirationDate license) (boundDeviceId license)
              (remainingDays (expirationDate license) now)),
      saveLicenses (obj_set (licenses s) hash license))"

definition verifyLicense ::
  "(string \<Rightarrow> string) \<Rightarrow> server \<Rightarrow> string option \<Rightarrow> string option \<Rightarrow> instant \<Rightarrow>
   response \<times> server" where
  "verifyLicense H s keyField deviceField now =
     (if falsy keyField \<or> falsy deviceField
      then ((400, Invalid ''License key and device ID are required''), s)
      else case (keyField, deviceField) of
        (Some licenseKey, Some deviceId) \<Rightarrow>
         (let hash = H licenseKey in
          case obj_get (licenses s) hash of
            None \<Rightarrow> ((200, Invalid ''License not found''), s)
          | Some license \<Rightarrow>
              if expirationDate license < now then ((200, Invalid ''License expired''), s)
              else if \<not> isActive license then ((200, Invalid ''License is inactive''), s)
              else if falsy (boundDeviceId license)
              then verified s hash (license\<lparr>boundDeviceId := Some deviceId\<rparr>) now
              else if boundDeviceId license \<noteq> Some deviceId
              then ((200, Invalid ''License is bound to a different device''), s)
              else verified s hash license now)
      | _ \<Rightarrow> ((400, Invalid ''License key and device ID are required''), s))"

subsection \<open>POST /api/verify-user-license\<close>




subsection \<open>PUT deactivate, activate, extend; DELETE\<close>




text \<open>
  The guard is \<open>!hash || !daysToAdd || daysToAdd <= 0\<close>, on a \<open>daysToAdd\<close> of any
  type. The new expiry is \<open>new Date(currentExpiry.getTime() + daysToAdd * 24 * 60 * 60 *
  1000)\<close>, and \<open>newExpiry.toISOString()\<close> raises before anything is assigned when that
  is no date; on a member of \<open>Object.prototype\<close> \<open>expirationDate\<close> is
  \<open>undefined\<close> and \<open>currentExpiry\<close> is already no date. Then
  \<open>license.validityDays += daysToAdd\<close>.
\<close>

definition extend ::
  "(string \<Rightarrow> jsnum) \<Rightarrow> server \<Rightarrow> string \<Rightarrow> jsval \<Rightarrow> response \<times> server" where
  "extend N s hash daysToAdd =
     (if hash = [] \<or> \<not> truthy daysToAdd \<or> le_zero (toNumber N daysToAdd)
      then ((400, Failure ''License hash and positive daysToAdd are required''), s)
      else case obj_at (licenses s) hash of
        Absent \<Rightarrow> ((404, Failure ''License not found''), s)
      | Inherited \<Rightarrow> ((500, Failure ''Invalid time value''), s)
      | Own license \<Rightarrow>
         (case newDate (num_add (Fin (real_of_int (expirationDate license)))
                  (num_mul (num_mul (num_mul (num_mul (toNumber N daysToAdd) (Fin 24))
                     (Fin 60)) (Fin 60)) (Fin 1000))) of
            None \<Rightarrow> ((500, Failure ''Invalid time value''), s)
          | Some newExpiry \<Rightarrow>
              let license' = license\<lparr>expirationDate := newExpiry,
                     validityDays := jsPlus N (validityDays license) daysToAdd\<rparr>
              in ((200, LicenseBody hash license'),
                  saveLicenses (obj_set (licenses s) hash license'))))"


section \<open>The server as a transition system\<close>




definition startup :: "(string \<times> license) list \<Rightarrow> server" where
  "startup entries = \<lparr>licenses = loadLicenses entries, licensesFile = entries\<rparr>"

section \<open>The bound on the login history\<close>


section \<open>Example data\<close>

text \<open>
  A small registry on which the theorems below are instantiated. The digest stands in
  for SHA-256; the instants are 2025-11-03 (creation) and thirty days
  later (expiration).
\<close>

definition exampleDigest :: "string \<Rightarrow> string" where
  "exampleDigest k = CHR ''#'' # k"

text \<open>\<open>exampleToNumber\<close> agrees with \<open>ToNumber\<close> on the strings of decimal digits.\<close>

definition exampleToNumber :: "string \<Rightarrow> jsnum" where
  "exampleToNumber t =
     (if t \<noteq> [] \<and> list_all (\<lambda>c. 48 \<le> (of_char c :: nat) \<and> (of_char c :: nat) \<le> 57) t
      then Fin (real (foldl (\<lambda>n c. 10 * n + (of_char c - 48)) 0 t)) else NaN)"

definition exampleLicense :: license where
  "exampleLicense = \<lparr>key = ''VET-c1-AB'', customerId = ''c1'', licenseType = ''production'',
      created = 1762128000000, expirationDate = 1764720000000,
      validityDays = Val (Number (Fin 30)),
      deviceFingerprint = None, usageCount = 0, isActive = True, users = None,
      boundDeviceId = None, loginHistory = None, licenseName = None\<rparr>"

definition exampleServer :: server where
  "exampleServer = saveLicenses [(exampleDigest ''VET-c1-AB'', exampleLicense)]"

definition inactiveServer :: server where
  "inactiveServer =
     saveLicenses [(exampleDigest ''VET-c1-AB'', exampleLicense\<lparr>isActive := False\<rparr>)]"

definition exampleUser :: user_assignment where
  "exampleUser = \<lparr>username = Some ''ahmed'', role = ''doctor'', addedAt = 1762128000000,
      userIsActive = True\<rparr>"

definition rosterServer :: server where
  "rosterServer =
     saveLicenses [(exampleDigest ''VET-c1-AB'', exampleLicense\<lparr>users := Some [exampleUser]\<rparr>)]"

definition undefinedNameUser :: "instant \<Rightarrow> user_assignment" where
  "undefinedNameUser t = \<lparr>username = None, role = ''user'', addedAt = t, userIsActive = True\<rparr>"

definition statsServer :: server where
  "statsServer = saveLicenses
     [(''h1'', exampleLicense),
      (''h2'', exampleLicense\<lparr>expirationDate := 1762127999999, isActive := False\<rparr>),
      (''h3'', exampleLicense\<lparr>expirationDate := 1764720000001\<rparr>)]"

definition boundServer :: server where
  "boundServer =
     saveLicenses [(exampleDigest ''VET-c1-AB'', exampleLicense\<lparr>boundDeviceId := Some ''PC-1''\<rparr>)]"





definition emptyNameUser :: "instant \<Rightarrow> user_assignment" where
  "emptyNameUser t = \<lparr>username = Some [], role = ''user'', addedAt = t, userIsActive = True\<rparr>"

section \<open>Basic facts\<close>

lemma obj_get_set: "obj_get (obj_set obj k v) k' = (if k' = k then Some v else obj_get obj k')"
  by (simp add: obj_get_def obj_set_def update_conv')

lemma obj_set_same: "obj_get obj k = Some v \<Longrightarrow> obj_set obj k v = obj"
  by (simp add: obj_get_def obj_set_def update_triv)

lemma falsy_simps: "falsy None" "falsy (Some k) = (k = [])"
  by (simp_all add: falsy_def)

lemma saveLicenses_sel:
  "licenses (saveLicenses ls) = ls" "licensesFile (saveLicenses ls) = ls"
  by (simp_all add: saveLicenses_def)

lemma obj_at_Own: "obj_get obj k = Some v \<Longrightarrow> obj_at obj k = Own v"
  by (simp add: obj_at_def)


section \<open>ValidateByKey\<close>

text \<open>
  Claim C4. The checks of \<open>POST /api/licenses/validate\<close> are applied in order and the
  first failing one decides the answer: a missing key, then a key whose hash is not in
  the registry, then an expiration date before now, then an inactive license. An expired
  license is answered with the expiration reason whatever its \<open>isActive\<close> is, and no
  failing check changes the state.
\<close>

theorem validate_check_order:
  "(falsy keyField \<longrightarrow>
      validate H s keyField now = ((400, Invalid ''License key not provided''), s)) \<and>
   (keyField = Some k \<and> k \<noteq> [] \<and> obj_get (licenses s) (H k) = None \<longrightarrow>
      validate H s keyField now = ((200, Invalid ''License not found''), s)) \<and>
   (keyField = Some k \<and> k \<noteq> [] \<and> obj_get (licenses s) (H k) = Some l \<and>
    expirationDate l < now \<longrightarrow>
      validate H s keyField now = ((200, Invalid ''License expired''), s)) \<and>
   (keyField = Some k \<and> k \<noteq> [] \<and> obj_get (licenses s) (H k) = Some l \<and>
    \<not> expirationDate l < now \<and> \<not> isActive l \<longrightarrow>
      validate H s keyField now = ((200, Invalid ''License is inactive''), s))"
  by (auto simp: validate_def falsy_def)

theorem validate_check_order_witness:
  "validate exampleDigest exampleServer None 1762128000000
     = ((400, Invalid ''License key not provided''), exampleServer) \<and>
   validate exampleDigest exampleServer (Some ''VET-zz'') 1762128000000
     = ((200, Invalid ''License not found''), exampleServer) \<and>
   validate exampleDigest exampleServer (Some ''VET-c1-AB'') 1764720000001
     = ((200, Invalid ''License expired''), exampleServer) \<and>
   validate exampleDigest inactiveServer (Some ''VET-c1-AB'') 1764720000001
     = ((200, Invalid ''License expired''), inactiveServer) \<and>
   validate exampleDigest inactiveServer (Some ''VET-c1-AB'') 1762128000000
     = ((200, Invalid ''License is inactive''), inactiveServer)"
  using validate_check_order [where keyField = None and H = exampleDigest and s = exampleServer
      and now = 1762128000000]
    validate_check_order [where keyField = "Some ''VET-zz''" and k = "''VET-zz''"
      and H = exampleDigest and s = exampleServer and now = 1762128000000]
    validate_check_order [where keyField = "Some ''VET-c1-AB''" and k = "''VET-c1-AB''"
      and H = exampleDigest and s = exampleServer and l = exampleLicense and now = 1764720000001]
    validate_check_order [where keyField = "Some ''VET-c1-AB''" and k = "''VET-c1-AB''"
      and H = exampleDigest and s = inactiveServer and l = "exampleLicense\<lparr>isActive := False\<rparr>"
      and now = 1764720000001]
    validate_check_order [where keyField = "Some ''VET-c1-AB''" and k = "''VET-c1-AB''"
      and H = exampleDigest and s = inactiveServer and l = "exampleLicense\<lparr>isActive := False\<rparr>"
      and now = 1762128000000]
  by (simp add: falsy_def exampleServer_def inactiveServer_def saveLicenses_def obj_get_def
      exampleDigest_def exampleLicense_def)

text \<open>
  Claim C5. \<open>POST /api/licenses/validate\<close> changes the state on success only. Every
  call either passes all checks (key given, license found, not expired, active), answers
  \<open>valid: true\<close>, adds exactly 1 to the \<open>usageCount\<close> of that license, leaves every
  other entry as it was and writes the registry to the file; or fails a check, answers
  \<open>valid: false\<close> with a reason and returns the state it was given.
\<close>

theorem validate_mutates_on_success_only:
  assumes "validate H s keyField now = (r, s')"
  shows "(\<exists>k l. keyField = Some k \<and> k \<noteq> [] \<and> obj_get (licenses s) (H k) = Some l \<and>
            \<not> expirationDate l < now \<and> isActive l \<and>
            r = (200, ValidLicense (customerId l) (expirationDate l) (licenseType l)) \<and>
            licenses s' = obj_set (licenses s) (H k) (l\<lparr>usageCount := usageCount l + 1\<rparr>) \<and>
            obj_get (licenses s') (H k) = Some (l\<lparr>usageCount := usageCount l + 1\<rparr>) \<and>
            (\<forall>h. h \<noteq> H k \<longrightarrow> obj_get (licenses s') h = obj_get (licenses s) h) \<and>
            licensesFile s' = licenses s')
       \<or> ((falsy keyField \<or>
            (\<exists>k. keyField = Some k \<and>
               (case obj_get (licenses s) (H k) of None \<Rightarrow> True
                | Some l \<Rightarrow> expirationDate l < now \<or> \<not> isActive l))) \<and>
           (\<exists>status reason. r = (status, Invalid reason)) \<and> s' = s)"
  using assms
  by (auto simp: validate_def falsy_def Let_def saveLicenses_sel obj_get_set
      split: option.splits if_splits)

theorem validate_mutates_on_success_only_witness:
  "validate exampleDigest exampleServer (Some ''VET-c1-AB'') 1762128000000
     = ((200, ValidLicense ''c1'' 1764720000000 ''production''),
        saveLicenses [(exampleDigest ''VET-c1-AB'', exampleLicense\<lparr>usageCount := 1\<rparr>)]) \<and>
   validate exampleDigest
       (saveLicenses [(exampleDigest ''VET-c1-AB'', exampleLicense\<lparr>usageCount := 1\<rparr>)])
       (Some ''VET-c1-AB'') 1762128000000
     = ((200, ValidLicense ''c1'' 1764720000000 ''production''),
        saveLicenses [(exampleDigest ''VET-c1-AB'', exampleLicense\<lparr>usageCount := 2\<rparr>)]) \<and>
   snd (validate exampleDigest exampleServer (Some ''VET-c1-AB'') 1764720000001) = exampleServer"
  using validate_mutates_on_success_only [OF surjective_pairing, where H = exampleDigest
      and s = exampleServer and keyField = "Some ''VET-c1-AB''" and now = 1762128000000]
    validate_mutates_on_success_only [OF surjective_pairing, where H = exampleDigest
      and s = "saveLicenses [(exampleDigest ''VET-c1-AB'', exampleLicense\<lparr>usageCount := 1\<rparr>)]"
      and keyField = "Some ''VET-c1-AB''" and now = 1762128000000]
    validate_mutates_on_success_only [OF surjective_pairing, where H = exampleDigest
      and s = exampleServer and keyField = "Some ''VET-c1-AB''" and now = 1764720000001]
  by (simp add: validate_def falsy_def exampleServer_def saveLicenses_def obj_get_def obj_set_def
      exampleDigest_def exampleLicense_def Let_def)

section \<open>AddUser\<close>

lemma findUser_None_iff: "findUser n us = None \<longleftrightarrow> (\<forall>x\<in>set us. username x \<noteq> n)"
  by (induction us) auto

lemma usersOf_nonempty: "x \<in> set (usersOf l) \<Longrightarrow> users l = Some (usersOf l)"
  by (cases "users l") (simp_all add: usersOf_def)

lemma inMemory_same: "inMemory s (licenses s) = s"
  by (simp add: inMemory_def)

lemma addUser_not_found:
  assumes "obj_at (licenses s) hash = Absent"
  shows "addUser s hash u r stamp = ((404, Failure ''License not found''), Continue s)"
  using assms by (simp add: addUser_def)

lemma addUser_duplicate:
  assumes "obj_get (licenses s) hash = Some l" and "\<exists>x\<in>set (usersOf l). username x = u"
  shows "addUser s hash u r stamp
    = ((400, Failure ''User already exists in this license''), Continue s)"
proof -
  from assms(2) have f: "findUser u (usersOf l) \<noteq> None"
    by (simp add: findUser_None_iff)
  from assms(2) have "users l = Some (usersOf l)"
    by (auto dest: usersOf_nonempty)
  then have "l\<lparr>users := Some (usersOf l)\<rparr> = l"
    by simp
  with assms(1) f show ?thesis
    by (simp add: addUser_def Let_def obj_at_Own obj_set_same inMemory_same)
qed

lemma addUser_appends:
  assumes "obj_get (licenses s) hash = Some l" and "\<forall>x\<in>set (usersOf l). username x \<noteq> u"
  shows "addUser s hash u r stamp =
        ((201, UserBody \<lparr>username = u, role = (case r of None \<Rightarrow> ''user'' | Some x \<Rightarrow> x),
                         addedAt = stamp, userIsActive = True\<rparr>),
         Continue (saveLicenses (obj_set (licenses s) hash
           (l\<lparr>users := Some (usersOf l @
              [\<lparr>username = u, role = (case r of None \<Rightarrow> ''user'' | Some x \<Rightarrow> x),
                addedAt = stamp, userIsActive = True\<rparr>])\<rparr>))))"
proof -
  from assms(2) have "findUser u (usersOf l) = None"
    by (simp add: findUser_None_iff)
  with assms(1) show ?thesis
    by (simp add: addUser_def Let_def obj_at_Own)
qed

lemma addUser_inherited:
  assumes "obj_at (licenses s) hash = Inherited"
  shows "addUser s hash u r stamp =
        ((201, UserBody \<lparr>username = u, role = (case r of None \<Rightarrow> ''user'' | Some x \<Rightarrow> x),
                         addedAt = stamp, userIsActive = True\<rparr>),
         BuiltinModified (saveLicenses (licenses s)))"
  using assms by (simp add: addUser_def)

text \<open>
  Claim C8 says that \<open>POST /api/licenses/:hash/users\<close> fails with NotFound when the
  license is missing. The handler tests \<open>!licenses[hash]\<close> on a plain object, and for
  a hash that names a member of \<open>Object.prototype\<close> the test finds that member: with
  the hash \<open>constructor\<close>, under which the example registry has no license, the
  handler pushes the user onto \<open>Object.users\<close> and answers 201, where a hash that
  names nothing is answered 404. (On a license of the registry the handler answers 400
  to a username that is already there and appends the user otherwise:
  \<open>addUser_duplicate\<close>, \<open>addUser_appends\<close>.)
\<close>

theorem addUser_inherited_hash:
  "obj_get (licenses exampleServer) ''constructor'' = None \<and>
   addUser exampleServer ''constructor'' (Some ''ahmed'') None 1762128000500
     = ((201, UserBody \<lparr>username = Some ''ahmed'', role = ''user'', addedAt = 1762128000500,
                        userIsActive = True\<rparr>),
        BuiltinModified exampleServer) \<and>
   addUser exampleServer ''0000'' (Some ''ahmed'') None 1762128000500
     = ((404, Failure ''License not found''), Continue exampleServer)"
  by (simp add: addUser_def obj_at_def obj_get_def objectPrototypeNames_def exampleServer_def
      saveLicenses_def exampleDigest_def)

text \<open>
  Claim C10. The handler does not validate the username. On an existing license that has
  no user with a missing (\<open>undefined\<close>) username, respectively with the empty
  username, a call with that username is answered 201 and appends a user whose
  \<open>username\<close> is that value; any later such call on the resulting state is answered
  400 "User already exists in this license" and changes nothing.
\<close>

theorem addUser_missing_or_empty_username:
  assumes "u = None \<or> u = Some []"
    and "obj_get (licenses s) hash = Some l"
    and "\<forall>x\<in>set (usersOf l). username x \<noteq> u"
  shows "\<exists>s1 added. added = \<lparr>username = u, role = (case r of None \<Rightarrow> ''user'' | Some x \<Rightarrow> x),
                         addedAt = stamp, userIsActive = True\<rparr> \<and>
           addUser s hash u r stamp = ((201, UserBody added), Continue s1) \<and>
           obj_get (licenses s1) hash = Some (l\<lparr>users := Some (usersOf l @ [added])\<rparr>) \<and>
           addUser s1 hash u r' stamp'
             = ((400, Failure ''User already exists in this license''), Continue s1)"
proof -
  let ?added = "\<lparr>username = u, role = (case r of None \<Rightarrow> ''user'' | Some x \<Rightarrow> x),
                  addedAt = stamp, userIsActive = True\<rparr>"
  let ?l1 = "l\<lparr>users := Some (usersOf l @ [?added])\<rparr>"
  let ?s1 = "saveLicenses (obj_set (licenses s) hash ?l1)"
  have first: "addUser s hash u r stamp = ((201, UserBody ?added), Continue ?s1)"
    using assms(2,3) by (rule addUser_appends)
  have stored: "obj_get (licenses ?s1) hash = Some ?l1"
    by (simp add: saveLicenses_sel obj_get_set)
  have "\<exists>x\<in>set (usersOf ?l1). username x = u"
    by (simp add: usersOf_def)
  with stored have second: "addUser ?s1 hash u r' stamp'
      = ((400, Failure ''User already exists in this license''), Continue ?s1)"
    by (rule addUser_duplicate)
  from first stored second show ?thesis by blast
qed

theorem addUser_missing_or_empty_username_witness:
  "addUser exampleServer (exampleDigest ''VET-c1-AB'') None None 1762128000500
     = ((201, UserBody (undefinedNameUser 1762128000500)),
        Continue (saveLicenses [(exampleDigest ''VET-c1-AB'',
          exampleLicense\<lparr>users := Some [undefinedNameUser 1762128000500]\<rparr>)])) \<and>
   addUser (saveLicenses [(exampleDigest ''VET-c1-AB'',
          exampleLicense\<lparr>users := Some [undefinedNameUser 1762128000500]\<rparr>)])
       (exampleDigest ''VET-c1-AB'') None None 1762128000900
     = ((400, Failure ''User already exists in this license''),
        Continue (saveLicenses [(exampleDigest ''VET-c1-AB'',
          exampleLicense\<lparr>users := Some [undefinedNameUser 1762128000500]\<rparr>)])) \<and>
   addUser exampleServer (exampleDigest ''VET-c1-AB'') (Some []) None 1762128000500
     = ((201, UserBody (emptyNameUser 1762128000500)),
        Continue (saveLicenses [(exampleDigest ''VET-c1-AB'',
          exampleLicense\<lparr>users := Some [emptyNameUser 1762128000500]\<rparr>)])) \<and>
   addUser (saveLicenses [(exampleDigest ''VET-c1-AB'',
          exampleLicense\<lparr>users := Some [emptyNameUser 1762128000500]\<rparr>)])
       (exampleDigest ''VET-c1-AB'') (Some []) None 1762128000900
     = ((400, Failure ''User already exists in this license''),
        Continue (saveLicenses [(exampleDigest ''VET-c1-AB'',
          exampleLicense\<lparr>users := Some [emptyNameUser 1762128000500]\<rparr>)]))"
  using addUser_missing_or_empty_username [where u = None and s = exampleServer
      and hash = "exampleDigest ''VET-c1-AB''" and l = exampleLicense and r = None
      and stamp = 1762128000500 and r' = None and stamp' = 1762128000900]
    addUser_missing_or_empty_username [where u = "Some []" and s = exampleServer
      and hash = "exampleDigest ''VET-c1-AB''" and l = exampleLicense and r = None
      and stamp = 1762128000500 and r' = None and stamp' = 1762128000900]
  by (simp add: exampleServer_def saveLicenses_def obj_get_def obj_set_def
      exampleDigest_def exampleLicense_def usersOf_def undefinedNameUser_def emptyNameUser_def
      addUser_def obj_at_def Let_def inMemory_def)

section \<open>Stats\<close>

lemma daysUntilExpiry_neg: "daysUntilExpiry now l < 0 \<longleftrightarrow> expirationDate l < now"
  by (simp add: daysUntilExpiry_def msPerDay_def divide_less_0_iff)

lemma daysUntilExpiry_le_30:
  "daysUntilExpiry now l \<le> 30 \<longleftrightarrow> expirationDate l - now \<le> 30 * msPerDay"
proof -
  have "daysUntilExpiry now l \<le> 30
      \<longleftrightarrow> real_of_int (expirationDate l - now) \<le> real_of_int (30 * msPerDay)"
    by (simp add: daysUntilExpiry_def msPerDay_def pos_divide_le_eq)
  also have "\<dots> \<longleftrightarrow> expirationDate l - now \<le> 30 * msPerDay"
    by (rule of_int_le_iff)
  finally show ?thesis .
qed

lemma countLicense_fields:
  "active (countLicense now l st) = active st + (if isActive l then 1 else 0)"
  "inactive (countLicense now l st) = inactive st + (if isActive l then 0 else 1)"
  "expired (countLicense now l st) = expired st + (if expirationDate l < now then 1 else 0)"
  "expiringIn30Days (countLicense now l st) = expiringIn30Days st +
     (if \<not> expirationDate l < now \<and> expirationDate l - now \<le> 30 * msPerDay then 1 else 0)"
  "totalLicenses (countLicense now l st) = totalLicenses st"
  "timeToResolve (countLicense now l st) = timeToResolve st"
  "available (countLicense now l st) = available st"
  by (simp_all add: countLicense_def Let_def daysUntilExpiry_neg daysUntilExpiry_le_30)

lemma fold_countLicense:
  "active (fold (countLicense now) xs st) = active st + int (length (filter isActive xs))"
  "inactive (fold (countLicense now) xs st)
     = inactive st + int (length (filter (\<lambda>l. \<not> isActive l) xs))"
  "expired (fold (countLicense now) xs st)
     = expired st + int (length (filter (\<lambda>l. expirationDate l < now) xs))"
  "expiringIn30Days (fold (countLicense now) xs st) = expiringIn30Days st +
     int (length (filter (\<lambda>l. \<not> expirationDate l < now \<and>
                              expirationDate l - now \<le> 30 * msPerDay) xs))"
  "totalLicenses (fold (countLicense now) xs st) = totalLicenses st"
  "timeToResolve (fold (countLicense now) xs st) = timeToResolve st"
  by (induction xs arbitrary: st; simp add: countLicense_fields)+

lemma case_snd: "(\<lambda>(h, l). P l) = P \<circ> snd"
  by auto

text \<open>
  Claim C9. \<open>GET /api/stats\<close> counts in one pass over the registry as it is at the
  call: \<open>total\<close> is the number of entries; a license counts as expired exactly when
  its expiration date is before now, as expiring in 30 days exactly when it is not
  expired and expires at most 30 days from now, and as active or inactive by its
  \<open>isActive\<close>, so that active + inactive = total; \<open>available\<close> is total - active.
  The state is not changed.
\<close>

theorem getStats_classifies:
  "getStats s now =
     ((200, StatsBody
        \<lparr>totalLicenses = int (length (licenses s)),
         active = int (length (filter (\<lambda>(h, l). isActive l) (licenses s))),
         inactive = int (length (filter (\<lambda>(h, l). \<not> isActive l) (licenses s))),
         expired = int (length (filter (\<lambda>(h, l). expirationDate l < now) (licenses s))),
         expiringIn30Days = int (length (filter (\<lambda>(h, l). \<not> expirationDate l < now \<and>
                               expirationDate l - now \<le> 30 * msPerDay) (licenses s))),
         timeToResolve = ''0h'',
         available = int (length (licenses s))
                     - int (length (filter (\<lambda>(h, l). isActive l) (licenses s)))\<rparr>), s) \<and>
   int (length (filter (\<lambda>(h, l). isActive l) (licenses s)))
     + int (length (filter (\<lambda>(h, l). \<not> isActive l) (licenses s)))
     = int (length (licenses s))"
proof -
  have "computeStats (licenses s) now =
     \<lparr>totalLicenses = int (length (licenses s)),
      active = int (length (filter (\<lambda>(h, l). isActive l) (licenses s))),
      inactive = int (length (filter (\<lambda>(h, l). \<not> isActive l) (licenses s))),
      expired = int (length (filter (\<lambda>(h, l). expirationDate l < now) (licenses s))),
      expiringIn30Days = int (length (filter (\<lambda>(h, l). \<not> expirationDate l < now \<and>
                            expirationDate l - now \<le> 30 * msPerDay) (licenses s))),
      timeToResolve = ''0h'',
      available = int (length (licenses s))
                  - int (length (filter (\<lambda>(h, l). isActive l) (licenses s)))\<rparr>"
    by (rule stats.equality)
       (simp_all add: computeStats_def Let_def fold_countLicense case_snd comp_def)
  moreover have "length (filter (\<lambda>(h, l). isActive l) (licenses s))
      + length (filter (\<lambda>(h, l). \<not> isActive l) (licenses s)) = length (licenses s)"
    using sum_length_filter_compl [of "\<lambda>(h, l). isActive l" "licenses s"]
    by (simp add: case_prod_unfold)
  ultimately show ?thesis
    by (simp add: getStats_def)
qed

theorem getStats_classifies_witness:
  "getStats statsServer 1762128000000 =
     ((200, StatsBody \<lparr>totalLicenses = 3, active = 2, inactive = 1, expired = 1,
         expiringIn30Days = 1, timeToResolve = ''0h'', available = 1\<rparr>), statsServer)"
  using getStats_classifies [where s = statsServer and now = 1762128000000]
  by (simp add: statsServer_def saveLicenses_def exampleLicense_def msPerDay_def)

section \<open>ValidateWithDevice\<close>

lemma remainingDays_eval: "remainingDays e n = - ((n - e) div msPerDay)"
  by (simp only: remainingDays_def ceiling_divide_eq_div minus_diff_eq)

lemma verifyLicense_state:
  "snd (verifyLicense H s keyField deviceField now) = s \<or>
   (\<exists>k d l0. keyField = Some k \<and> deviceField = Some d \<and> d \<noteq> [] \<and>
      obj_get (licenses s) (H k) = Some l0 \<and>
      snd (verifyLicense H s keyField deviceField now) =
        saveLicenses (obj_set (licenses s) (H k)
          (if falsy (boundDeviceId l0) then l0\<lparr>boundDeviceId := Some d\<rparr> else l0)))"
  by (auto simp: verifyLicense_def verified_def Let_def falsy_simps split: option.splits)

text \<open>
  Claim C1. Device binding in \<open>POST /api/verify-license\<close> is a one-way, one-time
  transition. On a license that passes the earlier checks (found, not expired, active):
  with no device bound, a call with device \<open>D\<close> succeeds and stores \<open>D\<close> as
  \<open>boundDeviceId\<close>; with \<open>D\<close> bound, a call with another device \<open>D'\<close> is answered
  \<open>valid: false\<close>, "License is bound to a different device", and changes nothing,
  while a call with \<open>D\<close> succeeds and leaves the license as it is. Whatever the other
  checks say, a call with a device other than the bound one never succeeds and never
  changes the state, and no call changes a \<open>boundDeviceId\<close> that is set.
\<close>

theorem device_binding_one_way:
  "(k \<noteq> [] \<and> D \<noteq> [] \<and> obj_get (licenses s) (H k) = Some l \<and>
    \<not> expirationDate l < now \<and> isActive l \<and> falsy (boundDeviceId l) \<longrightarrow>
      verifyLicense H s (Some k) (Some D) now =
        ((200, ValidDevice (displayName l) (expirationDate l) (Some D)
                 (remainingDays (expirationDate l) now)),
         saveLicenses (obj_set (licenses s) (H k) (l\<lparr>boundDeviceId := Some D\<rparr>)))) \<and>
   (k \<noteq> [] \<and> D \<noteq> [] \<and> D' \<noteq> [] \<and> D' \<noteq> D \<and> obj_get (licenses s) (H k) = Some l \<and>
    \<not> expirationDate l < now \<and> isActive l \<and> boundDeviceId l = Some D \<longrightarrow>
      verifyLicense H s (Some k) (Some D') now =
        ((200, Invalid ''License is bound to a different device''), s)) \<and>
   (k \<noteq> [] \<and> D \<noteq> [] \<and> obj_get (licenses s) (H k) = Some l \<and>
    \<not> expirationDate l < now \<and> isActive l \<and> boundDeviceId l = Some D \<longrightarrow>
      verifyLicense H s (Some k) (Some D) now =
        ((200, ValidDevice (displayName l) (expirationDate l) (Some D)
                 (remainingDays (expirationDate l) now)),
         saveLicenses (licenses s))) \<and>
   (D \<noteq> [] \<and> obj_get (licenses s) (H k) = Some l \<and> boundDeviceId l = Some D \<and>
    deviceField \<noteq> Some D \<longrightarrow>
      (\<exists>status reason. fst (verifyLicense H s (Some k) deviceField now)
                          = (status, Invalid reason)) \<and>
      snd (verifyLicense H s (Some k) deviceField now) = s) \<and>
   (obj_get (licenses s) h = Some l \<and> \<not> falsy (boundDeviceId l) \<longrightarrow>
      (\<exists>l'. obj_get (licenses (snd (verifyLicense H s keyField deviceField now))) h = Some l' \<and>
            boundDeviceId l' = boundDeviceId l))"
proof (intro conjI impI)
  assume "k \<noteq> [] \<and> D \<noteq> [] \<and> obj_get (licenses s) (H k) = Some l \<and>
    \<not> expirationDate l < now \<and> isActive l \<and> falsy (boundDeviceId l)"
  then show "verifyLicense H s (Some k) (Some D) now =
        ((200, ValidDevice (displayName l) (expirationDate l) (Some D)
                 (remainingDays (expirationDate l) now)),
         saveLicenses (obj_set (licenses s) (H k) (l\<lparr>boundDeviceId := Some D\<rparr>)))"
    by (simp add: verifyLicense_def verified_def falsy_simps displayName_def)
next
  assume "k \<noteq> [] \<and> D \<noteq> [] \<and> D' \<noteq> [] \<and> D' \<noteq> D \<and> obj_get (licenses s) (H k) = Some l \<and>
    \<not> expirationDate l < now \<and> isActive l \<and> boundDeviceId l = Some D"
  then show "verifyLicense H s (Some k) (Some D') now =
        ((200, Invalid ''License is bound to a different device''), s)"
    by (auto simp: verifyLicense_def falsy_simps)
next
  assume "k \<noteq> [] \<and> D \<noteq> [] \<and> obj_get (licenses s) (H k) = Some l \<and>
    \<not> expirationDate l < now \<and> isActive l \<and> boundDeviceId l = Some D"
  then show "verifyLicense H s (Some k) (Some D) now =
        ((200, ValidDevice (displayName l) (expirationDate l) (Some D)
                 (remainingDays (expirationDate l) now)),
         saveLicenses (licenses s))"
    by (simp add: verifyLicense_def verified_def falsy_simps obj_set_same)
next
  assume a: "D \<noteq> [] \<and> obj_get (licenses s) (H k) = Some l \<and> boundDeviceId l = Some D \<and>
    deviceField \<noteq> Some D"
  then show "\<exists>status reason. fst (verifyLicense H s (Some k) deviceField now)
                          = (status, Invalid reason)"
    by (cases deviceField) (auto simp: verifyLicense_def falsy_simps Let_def)
  from a show "snd (verifyLicense H s (Some k) deviceField now) = s"
    by (cases deviceField) (auto simp: verifyLicense_def falsy_simps Let_def)
next
  assume a: "obj_get (licenses s) h = Some l \<and> \<not> falsy (boundDeviceId l)"
  show "\<exists>l'. obj_get (licenses (snd (verifyLicense H s keyField deviceField now))) h = Some l' \<and>
            boundDeviceId l' = boundDeviceId l"
  proof (cases "snd (verifyLicense H s keyField deviceField now) = s")
    case True
    with a show ?thesis by simp
  next
    case False
    then obtain k d l0 where l0: "obj_get (licenses s) (H k) = Some l0"
      and s': "snd (verifyLicense H s keyField deviceField now) =
        saveLicenses (obj_set (licenses s) (H k)
          (if falsy (boundDeviceId l0) then l0\<lparr>boundDeviceId := Some d\<rparr> else l0))"
      using verifyLicense_state [of H s keyField deviceField now] by blast
    show ?thesis
    proof (cases "h = H k")
      case True
      with a l0 have "l0 = l" "\<not> falsy (boundDeviceId l0)" by simp_all
      with True show ?thesis
        by (simp add: s' saveLicenses_sel obj_get_set)
    next
      case False
      with a show ?thesis
        by (simp add: s' saveLicenses_sel obj_get_set)
    qed
  qed
qed

theorem device_binding_one_way_witness:
  "verifyLicense exampleDigest exampleServer (Some ''VET-c1-AB'') (Some ''PC-1'') 1762128000000
     = ((200, ValidDevice ''VetCare License'' 1764720000000 (Some ''PC-1'') 30), boundServer) \<and>
   verifyLicense exampleDigest boundServer (Some ''VET-c1-AB'') (Some ''PC-2'') 1762128001000
     = ((200, Invalid ''License is bound to a different device''), boundServer) \<and>
   verifyLicense exampleDigest boundServer (Some ''VET-c1-AB'') (Some ''PC-1'') 1762214400001
     = ((200, ValidDevice ''VetCare License'' 1764720000000 (Some ''PC-1'') 29), boundServer) \<and>
   snd (verifyLicense exampleDigest boundServer (Some ''VET-c1-AB'') (Some ''PC-2'') 1764720000001)
     = boundServer"
  using device_binding_one_way [where H = exampleDigest and s = exampleServer
      and k = "''VET-c1-AB''" and D = "''PC-1''" and l = exampleLicense and now = 1762128000000]
    device_binding_one_way [where H = exampleDigest and s = boundServer
      and k = "''VET-c1-AB''" and D = "''PC-1''" and D' = "''PC-2''"
      and l = "exampleLicense\<lparr>boundDeviceId := Some ''PC-1''\<rparr>" and now = 1762128001000]
    device_binding_one_way [where H = exampleDigest and s = boundServer
      and k = "''VET-c1-AB''" and D = "''PC-1''"
      and l = "exampleLicense\<lparr>boundDeviceId := Some ''PC-1''\<rparr>" and now = 1762214400001]
    device_binding_one_way [where H = exampleDigest and s = boundServer
      and k = "''VET-c1-AB''" and D = "''PC-1''" and deviceField = "Some ''PC-2''"
      and l = "exampleLicense\<lparr>boundDeviceId := Some ''PC-1''\<rparr>" and now = 1764720000001]
  by (simp add: exampleServer_def boundServer_def saveLicenses_def obj_get_def obj_set_def
      exampleDigest_def exampleLicense_def falsy_def displayName_def remainingDays_eval
      msPerDay_def)

lemma verifyLicense_keeps_usageCount:
  assumes "obj_get (licenses s) h = Some l"
  shows "\<exists>l'. obj_get (licenses (snd (verifyLicense H s keyField deviceField now))) h = Some l' \<and>
              usageCount l' = usageCount l"
proof -
  from verifyLicense_state [of H s keyField deviceField now]
  show ?thesis
  proof
    assume "snd (verifyLicense H s keyField deviceField now) = s"
    with assms show ?thesis by simp
  next
    assume "\<exists>k d l0. keyField = Some k \<and> deviceField = Some d \<and> d \<noteq> [] \<and>
      obj_get (licenses s) (H k) = Some l0 \<and>
      snd (verifyLicense H s keyField deviceField now) =
        saveLicenses (obj_set (licenses s) (H k)
          (if falsy (boundDeviceId l0) then l0\<lparr>boundDeviceId := Some d\<rparr> else l0))"
    then obtain k d l0 where l0: "obj_get (licenses s) (H k) = Some l0"
      and s': "snd (verifyLicense H s keyField deviceField now) =
        saveLicenses (obj_set (licenses s) (H k)
          (if falsy (boundDeviceId l0) then l0\<lparr>boundDeviceId := Some d\<rparr> else l0))"
      by blast
    from assms l0 show ?thesis
      by (cases "h = H k") (simp_all add: s' saveLicenses_sel obj_get_set)
  qed
qed

text \<open>
  Claim C3 says that every successful validation increments \<open>usageCount\<close>. The
  handlers of \<open>/api/licenses/validate\<close> and \<open>/api/verify-user-license\<close> do;
  the handler of \<open>/api/verify-license\<close> has no such step
  (\<open>verifyLicense_keeps_usageCount\<close>). On the example registry a first call with a
  device is answered \<open>valid: true\<close> and binds the device, and \<open>usageCount\<close> is 0
  before and after, where \<open>validate\<close> with the same key counts 1.
\<close>

theorem verifyLicense_success_without_count:
  "verifyLicense exampleDigest exampleServer (Some ''VET-c1-AB'') (Some ''PC-1'') 1762128000000
     = ((200, ValidDevice ''VetCare License'' 1764720000000 (Some ''PC-1'') 30), boundServer) \<and>
   map_option usageCount (obj_get (licenses exampleServer) (exampleDigest ''VET-c1-AB''))
     = Some 0 \<and>
   map_option usageCount (obj_get (licenses boundServer) (exampleDigest ''VET-c1-AB''))
     = Some 0 \<and>
   map_option usageCount
     (obj_get (licenses (snd (validate exampleDigest exampleServer (Some ''VET-c1-AB'')
                                 1762128000000)))
        (exampleDigest ''VET-c1-AB''))
     = Some 1"
  by (simp add: verifyLicense_def verified_def validate_def exampleServer_def boundServer_def
      saveLicenses_def obj_get_def obj_set_def exampleDigest_def exampleLicense_def falsy_def
      displayName_def remainingDays_eval msPerDay_def Let_def)

section \<open>ValidateUser and the login history\<close>
































section \<open>Extend\<close>






text \<open>
  The guard also lets through values that are not whole numbers of days. On the example
  license (30 validity days) the string \<open>"30"\<close> moves the expiration by 30 days and
  turns \<open>validityDays\<close> into the text of 30 followed by \<open>30\<close>; the number
  \<open>1 / 268435456\<close> of days, a third of a millisecond, is added to \<open>validityDays\<close>
  and leaves the expiration date where it was; a string that is not a number, and the hash
  \<open>constructor\<close>, are answered 500.
\<close>

theorem extend_unchecked_days:
  "extend exampleToNumber exampleServer (exampleDigest ''VET-c1-AB'') (Str ''30'')
     = ((200, LicenseBody (exampleDigest ''VET-c1-AB'')
               (exampleLicense\<lparr>expirationDate := 1767312000000,
                  validityDays := Cat (Val (Number (Fin 30))) (Str ''30'')\<rparr>)),
        saveLicenses [(exampleDigest ''VET-c1-AB'',
               exampleLicense\<lparr>expirationDate := 1767312000000,
                  validityDays := Cat (Val (Number (Fin 30))) (Str ''30'')\<rparr>)]) \<and>
   extend exampleToNumber exampleServer (exampleDigest ''VET-c1-AB'')
       (Number (Fin (1 / 268435456)))
     = ((200, LicenseBody (exampleDigest ''VET-c1-AB'')
               (exampleLicense\<lparr>validityDays := Val (Number (Fin (30 + 1 / 268435456)))\<rparr>)),
        saveLicenses [(exampleDigest ''VET-c1-AB'',
               exampleLicense\<lparr>validityDays := Val (Number (Fin (30 + 1 / 268435456)))\<rparr>)]) \<and>
   extend exampleToNumber exampleServer (exampleDigest ''VET-c1-AB'') (Str ''abc'')
     = ((500, Failure ''Invalid time value''), exampleServer) \<and>
   extend exampleToNumber exampleServer ''constructor'' (Number (Fin 30))
     = ((500, Failure ''Invalid time value''), exampleServer)"
  by (simp add: extend_def truthy_def toNumber_def le_zero_def obj_at_def newDate_def
      jsPlus_def isText_def exampleToNumber_def objectPrototypeNames_def
      exampleServer_def saveLicenses_def obj_get_def obj_set_def exampleDigest_def
      exampleLicense_def maxInstant_def Let_def)



section \<open>Issue\<close>

text \<open>
  Claim C2 as stated, for every non-empty \<open>customerId\<close>, fails where the validity
  puts the expiration instant outside the range of \<open>Date\<close>: with
  \<open>validityDays = 100000000\<close> the object literal's \<open>expirationDate.toISOString()\<close>
  raises, the handler answers 500 and nothing is stored.
\<close>

theorem createLicense_out_of_range:
  "createLicense exampleDigest exampleServer (Some ''c2'') None (Some 100000000)
       ''0123456789ABCDEF'' 1762128000000
     = ((500, Failure ''Invalid time value''), exampleServer) \<and>
   obj_get (licenses (snd (createLicense exampleDigest exampleServer (Some ''c2'') None
       (Some 100000000) ''0123456789ABCDEF'' 1762128000000)))
     (exampleDigest (generateLicenseKey ''c2'' ''0123456789ABCDEF'')) = None"
  by (simp add: createLicense_def exampleServer_def saveLicenses_def obj_get_def exampleDigest_def
      generateLicenseKey_def validDate_def maxInstant_def Let_def)

text \<open>
  Claim C2, amended. \<open>POST /api/licenses\<close> answers 400 on a missing or empty
  \<open>customerId\<close>. For a non-empty \<open>customerId\<close> and a validity whose expiration
  instant is within the range of \<open>Date\<close>, it builds a record with \<open>usageCount = 0\<close>,
  \<open>isActive = true\<close>, no \<open>boundDeviceId\<close> (\<open>deviceFingerprint\<close> is null), no
  \<open>users\<close> (read as the empty sequence) and no \<open>loginHistory\<close>, stores it under the
  hash of its key, saves, and returns it with the hash. (Outside that range it answers 500
  and stores nothing.)
\<close>

theorem createLicense_cases:
  "(falsy cidField \<longrightarrow>
      createLicense H s cidField typeField daysField randomSuffix now
        = ((400, Failure ''Customer ID is required''), s)) \<and>
   (cidField = Some cid \<and> cid \<noteq> [] \<and>
    validDate (now + (case daysField of None \<Rightarrow> 365 | Some d \<Rightarrow> d) * 86400 * 1000) \<longrightarrow>
      (\<exists>license s'.
         createLicense H s cidField typeField daysField randomSuffix now
           = ((201, LicenseBody (H (key license)) license), s') \<and>
         key license = generateLicenseKey cid randomSuffix \<and>
         customerId license = cid \<and>
         licenseType license = (case typeField of None \<Rightarrow> ''production'' | Some t \<Rightarrow> t) \<and>
         created license = now \<and>
         validityDays license
           = Val (Number (Fin (real_of_int (case daysField of None \<Rightarrow> 365 | Some d \<Rightarrow> d)))) \<and>
         expirationDate license
           = now + (case daysField of None \<Rightarrow> 365 | Some d \<Rightarrow> d) * 86400 * 1000 \<and>
         usageCount license = 0 \<and> isActive license \<and>
         boundDeviceId license = None \<and> deviceFingerprint license = None \<and>
         users license = None \<and> usersOf license = [] \<and>
         loginHistory license = None \<and>
         obj_get (licenses s') (H (key license)) = Some license \<and>
         (\<forall>h. h \<noteq> H (key license) \<longrightarrow> obj_get (licenses s') h = obj_get (licenses s) h) \<and>
         licensesFile s' = licenses s')) \<and>
   (cidField = Some cid \<and> cid \<noteq> [] \<and>
    \<not> validDate (now + (case daysField of None \<Rightarrow> 365 | Some d \<Rightarrow> d) * 86400 * 1000) \<longrightarrow>
      createLicense H s cidField typeField daysField randomSuffix now
        = ((500, Failure ''Invalid time value''), s))"
  by (auto simp: createLicense_def Let_def falsy_def saveLicenses_sel obj_get_set usersOf_def
      split: option.splits)

theorem createLicense_cases_witness:
  "createLicense exampleDigest (startup []) (Some ''c1'') None (Some 30) ''AB'' 1762128000000
     = ((201, LicenseBody (exampleDigest ''VET-c1-AB'') exampleLicense), exampleServer) \<and>
   createLicense exampleDigest (startup []) (Some []) None (Some 30) ''AB'' 1762128000000
     = ((400, Failure ''Customer ID is required''), startup []) \<and>
   createLicense exampleDigest (startup []) (Some ''c1'') None (Some 100000000) ''AB''
       1762128000000
     = ((500, Failure ''Invalid time value''), startup [])"
  using createLicense_cases [where H = exampleDigest and s = "startup []"
      and cidField = "Some ''c1''" and cid = "''c1''" and typeField = None
      and daysField = "Some 30" and randomSuffix = "''AB''" and now = 1762128000000]
    createLicense_cases [where H = exampleDigest and s = "startup []"
      and cidField = "Some []" and typeField = None
      and daysField = "Some 30" and randomSuffix = "''AB''" and now = 1762128000000]
    createLicense_cases [where H = exampleDigest and s = "startup []"
      and cidField = "Some ''c1''" and cid = "''c1''" and typeField = None
      and daysField = "Some 100000000" and randomSuffix = "''AB''" and now = 1762128000000]
  by (simp add: createLicense_def startup_def loadLicenses_def exampleServer_def
      saveLicenses_def obj_set_def exampleDigest_def exampleLicense_def generateLicenseKey_def
      validDate_def maxInstant_def falsy_def Let_def)

end
